theory Spec2Isabelle
  imports Main
begin

section \<open>Data model (api/database.py, api/models.py, api/config.py)\<close>

text \<open>
  A timestamp is a reading of \<^verbatim>\<open>datetime.utcnow()\<close>; the ISO text the code stores is
  identified with the reading. Every reading of the clock is an explicit argument of the
  function that takes it.
\<close>

type_synonym datetime = nat

text \<open>A request's \<^verbatim>\<open>form_data\<close> dictionary, in insertion order.\<close>

type_synonym form = "(string \<times> string) list"

text \<open>
  One row of the \<^verbatim>\<open>tasks\<close> table. The primary key \<^verbatim>\<open>task_id\<close> is the key of the
  map below; the other thirteen columns are the fields. A nullable column is an option.
\<close>

record task_row =
  url :: string
  task_description :: string
  form_data :: "string option"
  callback_url :: "string option"
  timeout :: int
  status :: string
  result :: "string option"
  error :: "string option"
  callback_attempts :: int
  last_callback_error :: "string option"
  created_at :: datetime
  started_at :: "datetime option"
  completed_at :: "datetime option"

type_synonym database = "string \<rightharpoonup> task_row"

text \<open>
  The process environment: the three webhook constants of api/config.py, which are read
  from environment variables with \<^verbatim>\<open>int(os.getenv(...))\<close> (defaults 3, 2 and 10), and
  the library functions the code calls but the repository does not define:
  \<^verbatim>\<open>json.dumps\<close>, \<^verbatim>\<open>json.loads\<close> (\<open>None\<close> is \<^verbatim>\<open>JSONDecodeError\<close>),
  \<^verbatim>\<open>json.dumps(..., indent=2)\<close>, and pydantic's \<^verbatim>\<open>HttpUrl\<close> (\<open>None\<close> when the text is
  not an HTTP URL, otherwise the text \<^verbatim>\<open>str()\<close> gives back).
\<close>

record env =
  WEBHOOK_RETRY_ATTEMPTS :: int
  WEBHOOK_RETRY_DELAY :: int
  WEBHOOK_TIMEOUT :: int
  json_dumps :: "form \<Rightarrow> string"
  json_loads :: "string \<Rightarrow> form option"
  json_dumps_indent :: "form \<Rightarrow> string"
  http_url :: "string \<Rightarrow> string option"

definition MIN_TASK_TIMEOUT :: int where
  "MIN_TASK_TIMEOUT = 30"

definition MAX_TASK_TIMEOUT :: int where
  "MAX_TASK_TIMEOUT = 3600"

datatype api_error = ValidationError | HTTPException int | IntegrityError

subsection \<open>Python helpers\<close>

text \<open>Truthiness of an \<^verbatim>\<open>Optional[str]\<close>: \<^verbatim>\<open>None\<close> and the empty string are false.\<close>

definition truthy :: "string option \<Rightarrow> bool" where
  "truthy x = (case x of None \<Rightarrow> False | Some v \<Rightarrow> v \<noteq> [])"

text \<open>\<^verbatim>\<open>str\<close> of an integer, as the f-strings of api/task_queue.py render it.\<close>

fun str_nat :: "nat \<Rightarrow> string" where
  "str_nat n =
     (if n < 10 then [''0123456789'' ! n]
      else str_nat (n div 10) @ [''0123456789'' ! (n mod 10)])"

definition str_int :: "int \<Rightarrow> string" where
  "str_int i = (if i < 0 then CHR ''-'' # str_nat (nat (- i)) else str_nat (nat i))"

section \<open>TaskDatabase (api/database.py)\<close>

text \<open>
  \<^verbatim>\<open>mark_incomplete_as_failed\<close>: one UPDATE over every row whose status is
  \<^verbatim>\<open>'queued'\<close> or \<^verbatim>\<open>'running'\<close>.
\<close>

definition mark_incomplete_as_failed :: "datetime \<Rightarrow> database \<Rightarrow> database" where
  "mark_incomplete_as_failed now tasks =
     (\<lambda>k. case tasks k of
            None \<Rightarrow> None
          | Some r \<Rightarrow>
              if status r = ''queued'' \<or> status r = ''running''
              then Some (r\<lparr>status := ''failed'',
                           error := Some ''Server restarted during execution'',
                           completed_at := Some now\<rparr>)
              else Some r)"

text \<open>
  \<^verbatim>\<open>initialize\<close> creates the table and the indexes when they are missing and touches no
  row; \<^verbatim>\<open>init_database\<close> is \<^verbatim>\<open>initialize\<close> followed by the reconciliation.
\<close>

definition initialize :: "database \<Rightarrow> database" where
  "initialize tasks = tasks"

definition init_database :: "datetime \<Rightarrow> database \<Rightarrow> database" where
  "init_database now tasks = mark_incomplete_as_failed now (initialize tasks)"

text \<open>
  \<^verbatim>\<open>create_task\<close>: an INSERT with status \<^verbatim>\<open>'queued'\<close>. The columns the statement does
  not name take their defaults (NULL, and 0 for \<^verbatim>\<open>callback_attempts\<close>). The primary key
  makes SQLite refuse a second row with the same id. No argument is validated here.
  The result is the dictionary \<^verbatim>\<open>{task_id, status, created_at}\<close>.
\<close>

definition create_task ::
  "env \<Rightarrow> datetime \<Rightarrow> string \<Rightarrow> string \<Rightarrow> string \<Rightarrow> form \<Rightarrow> string option \<Rightarrow> int \<Rightarrow>
   database \<Rightarrow> api_error + ((string \<times> string \<times> datetime) \<times> database)" where
  "create_task e now tid u d fd cb t tasks =
     (if tasks tid \<noteq> None then Inl IntegrityError
      else Inr ((tid, ''queued'', now),
                tasks(tid \<mapsto>
                  \<lparr>url = u, task_description = d, form_data = Some (json_dumps e fd),
                   callback_url = cb, timeout = t, status = ''queued'',
                   result = None, error = None, callback_attempts = 0,
                   last_callback_error = None, created_at = now,
                   started_at = None, completed_at = None\<rparr>)))"

definition get_task :: "database \<Rightarrow> string \<Rightarrow> task_row option" where
  "get_task tasks tid = tasks tid"

text \<open>
  \<^verbatim>\<open>update_status\<close>: the status is always written; each of the four optional arguments
  is written only when given. The UPDATE is keyed by \<^verbatim>\<open>task_id\<close>: when no row has the id
  it changes nothing and returns normally.
\<close>

definition update_status ::
  "string \<Rightarrow> string \<Rightarrow> datetime option \<Rightarrow> datetime option \<Rightarrow> string option \<Rightarrow>
   string option \<Rightarrow> database \<Rightarrow> database" where
  "update_status tid st started completed res err tasks =
     (case tasks tid of
        None \<Rightarrow> tasks
      | Some r \<Rightarrow>
          tasks(tid \<mapsto>
            r\<lparr>status := st,
              started_at := (case started of None \<Rightarrow> started_at r | Some t \<Rightarrow> Some t),
              completed_at := (case completed of None \<Rightarrow> completed_at r | Some t \<Rightarrow> Some t),
              result := (case res of None \<Rightarrow> result r | Some v \<Rightarrow> Some v),
              error := (case err of None \<Rightarrow> error r | Some v \<Rightarrow> Some v)\<rparr>))"

text \<open>\<^verbatim>\<open>update_callback_attempt\<close>: both columns are always written, again keyed by id.\<close>

definition update_callback_attempt ::
  "string \<Rightarrow> int \<Rightarrow> string option \<Rightarrow> database \<Rightarrow> database" where
  "update_callback_attempt tid attempts err tasks =
     (case tasks tid of
        None \<Rightarrow> tasks
      | Some r \<Rightarrow> tasks(tid \<mapsto> r\<lparr>callback_attempts := attempts, last_callback_error := err\<rparr>))"

text \<open>\<^verbatim>\<open>delete_task\<close>: true when a row was deleted.\<close>

definition delete_task :: "string \<Rightarrow> database \<Rightarrow> bool \<times> database" where
  "delete_task tid tasks = (tasks tid \<noteq> None, tasks(tid := None))"

section \<open>TaskQueue (api/task_queue.py)\<close>

text \<open>
  \<^verbatim>\<open>CallbackPayload\<close> (api/models.py): task id, status, result, error, completion time.
\<close>

datatype callback_payload =
  CallbackPayload string string "string option" "string option" datetime


text \<open>
  What the worker does to the world outside the store, in the order it does it: taking
  an id from the queue, invoking the executor (\<^verbatim>\<open>_run_browser_task\<close> with task id, URL,
  description and timeout), posting a webhook (URL, payload, request timeout) and
  sleeping (\<^verbatim>\<open>asyncio.sleep\<close> with its argument). \<open>HttpPost\<close> is the call
  \<^verbatim>\<open>client.post(callback_url, json=..., timeout=WEBHOOK_TIMEOUT)\<close> of one attempt; whether
  a request leaves the process is decided by \<open>post_outcome\<close> below.
\<close>

datatype event =
    QueueGet string
  | ExecutorRun string string string int
  | HttpPost string callback_payload int
  | Sleep int

text \<open>The \<^verbatim>\<open>asyncio.Task\<close> that runs \<^verbatim>\<open>_worker\<close>: still running its loop, or ended.\<close>

datatype task_state = Pending | Done

text \<open>
  The state of the process: the store, the four attributes of \<^verbatim>\<open>TaskQueue\<close>, the frame of
  \<^verbatim>\<open>_execute_task\<close> while the worker is suspended in \<^verbatim>\<open>await self._run_browser_task(...)\<close>
  (the id and the row it loaded into the local \<^verbatim>\<open>task\<close>), and the events so far.
\<close>

record system =
  db :: database
  queue :: "string list"
  current_task_id :: "string option"
  worker_task :: "task_state option"
  running :: bool
  frame :: "(string \<times> task_row) option"
  trace :: "event list"

definition new_system :: "database \<Rightarrow> system" where
  "new_system tasks =
     \<lparr>db = tasks, queue = [], current_task_id = None, worker_task = None,
      running = False, frame = None, trace = []\<rparr>"

definition emit :: "event \<Rightarrow> system \<Rightarrow> system" where
  "emit ev s = s\<lparr>trace := trace s @ [ev]\<rparr>"

definition start :: "system \<Rightarrow> system" where
  "start s = (if running s then s else s\<lparr>running := True, worker_task := Some Pending\<rparr>)"

definition add_task :: "string \<Rightarrow> system \<Rightarrow> system" where
  "add_task tid s = s\<lparr>queue := queue s @ [tid]\<rparr>"

definition get_queue_size :: "system \<Rightarrow> nat" where
  "get_queue_size s = length (queue s)"

definition get_current_task :: "system \<Rightarrow> string option" where
  "get_current_task s = (case current_task_id s of None \<Rightarrow> None | Some tid \<Rightarrow> if tid = [] then None else Some tid)"

subsection \<open>\<^verbatim>\<open>_send_callback\<close>\<close>

text \<open>
  \<^verbatim>\<open>payload.model_dump()\<close> is a dictionary of Python values: the two texts and the two
  optional texts as they are, and \<^verbatim>\<open>completed_at\<close> as a \<^verbatim>\<open>datetime\<close> object. The
  \<^verbatim>\<open>json=\<close> argument of \<^verbatim>\<open>client.post\<close> is encoded with \<^verbatim>\<open>json.dumps\<close>, which raises
  \<^verbatim>\<open>TypeError\<close> on a \<^verbatim>\<open>datetime\<close>, before anything is sent.
\<close>

datatype py_value = PyNone | PyStr string | PyDatetime datetime

fun optional_str :: "string option \<Rightarrow> py_value" where
  "optional_str None = PyNone"
| "optional_str (Some v) = PyStr v"

fun model_dump :: "callback_payload \<Rightarrow> (string \<times> py_value) list" where
  "model_dump (CallbackPayload tid st res err completed) =
     [(''task_id'', PyStr tid), (''status'', PyStr st), (''result'', optional_str res),
      (''error'', optional_str err), (''completed_at'', PyDatetime completed)]"

fun json_serializable :: "py_value \<Rightarrow> bool" where
  "json_serializable PyNone = True"
| "json_serializable (PyStr v) = True"
| "json_serializable (PyDatetime t) = False"

text \<open>
  The outcome of attempt \<open>k\<close> (counted from 0), that is of \<^verbatim>\<open>client.post\<close> followed by
  \<^verbatim>\<open>raise_for_status\<close>: \<open>None\<close> when both return, \<open>Some msg\<close> when one of them raises an
  exception whose text is \<open>msg\<close>. When the body can be encoded it is what the network
  gives, \<open>http k\<close>; otherwise it is the \<^verbatim>\<open>TypeError\<close> of \<^verbatim>\<open>json.dumps\<close>.
\<close>

definition post_outcome ::
  "(nat \<Rightarrow> string option) \<Rightarrow> callback_payload \<Rightarrow> nat \<Rightarrow> string option" where
  "post_outcome http p k =
     (if list_all (\<lambda>kv. json_serializable (snd kv)) (model_dump p) then http k
      else Some ''Object of type datetime is not JSON serializable'')"

definition record_attempt :: "string \<Rightarrow> int \<Rightarrow> string option \<Rightarrow> system \<Rightarrow> system" where
  "record_attempt tid n err s = s\<lparr>db := update_callback_attempt tid n err (db s)\<rparr>"

definition backoff :: "env \<Rightarrow> nat \<Rightarrow> system \<Rightarrow> system" where
  "backoff e attempt s =
     (if int attempt < WEBHOOK_RETRY_ATTEMPTS e - 1
      then emit (Sleep (WEBHOOK_RETRY_DELAY e * 2 ^ attempt)) s
      else s)"

definition attempt_error :: "nat \<Rightarrow> string \<Rightarrow> string" where
  "attempt_error attempt msg =
     ''Callback attempt '' @ str_int (int attempt + 1) @ '' failed: '' @ msg"

text \<open>
  The body of the \<^verbatim>\<open>for attempt in range(WEBHOOK_RETRY_ATTEMPTS)\<close> loop, given the
  outcomes \<open>out\<close> of the attempts: post, persist the attempt, and after a failure that is
  not the last attempt sleep. The flag tells whether the attempt succeeded, in which case
  the function returns.
\<close>

definition attempt_once ::
  "env \<Rightarrow> (nat \<Rightarrow> string option) \<Rightarrow> string \<Rightarrow> string \<Rightarrow> callback_payload \<Rightarrow> nat \<Rightarrow>
   system \<Rightarrow> bool \<times> system" where
  "attempt_once e out tid cb p attempt s =
     (case out attempt of
        None \<Rightarrow>
          (True,
           record_attempt tid (int attempt + 1) None
             (emit (HttpPost cb p (WEBHOOK_TIMEOUT e)) s))
      | Some msg \<Rightarrow>
          (False,
           backoff e attempt
             (record_attempt tid (int attempt + 1) (Some (attempt_error attempt msg))
               (emit (HttpPost cb p (WEBHOOK_TIMEOUT e)) s))))"

fun send_callback_loop ::
  "env \<Rightarrow> (nat \<Rightarrow> string option) \<Rightarrow> string \<Rightarrow> string \<Rightarrow> callback_payload \<Rightarrow> nat list \<Rightarrow>
   system \<Rightarrow> system" where
  "send_callback_loop e out tid cb p [] s = s"
| "send_callback_loop e out tid cb p (attempt # rest) s =
     (case attempt_once e out tid cb p attempt s of
        (True, s1) \<Rightarrow> s1
      | (False, s1) \<Rightarrow> send_callback_loop e out tid cb p rest s1)"

definition send_callback ::
  "env \<Rightarrow> (nat \<Rightarrow> string option) \<Rightarrow> string \<Rightarrow> string \<Rightarrow> string \<Rightarrow> string option \<Rightarrow>
   string option \<Rightarrow> datetime \<Rightarrow> system \<Rightarrow> system" where
  "send_callback e http tid cb st res err completed s =
     send_callback_loop e
       (post_outcome http (CallbackPayload tid st res err completed)) tid cb
       (CallbackPayload tid st res err completed)
       [0..<nat (WEBHOOK_RETRY_ATTEMPTS e)] s"

subsection \<open>\<^verbatim>\<open>_execute_task\<close>\<close>

text \<open>
  A Python \<^verbatim>\<open>str\<close> that comes from outside the process (the agent's result, the text of
  an exception): either text that UTF-8 can encode, or a \<^verbatim>\<open>str\<close> that holds a lone
  surrogate. sqlite3 cannot bind the second kind: the statement raises
  \<^verbatim>\<open>UnicodeEncodeError\<close> before it runs, and the argument of \<open>Unencodable\<close> is the text
  of that error (which the error renders in ASCII). Task ids are the texts of \<^verbatim>\<open>uuid4\<close>
  and the statuses are literals, so every other text the worker binds can be encoded.
\<close>

datatype py_str = Str string | Unencodable string

text \<open>
  How the \<^verbatim>\<open>await\<close> on \<^verbatim>\<open>_run_browser_task\<close> ends: the agent's result as a \<^verbatim>\<open>str\<close>,
  \<^verbatim>\<open>asyncio.TimeoutError\<close> from \<^verbatim>\<open>asyncio.wait_for\<close>, or any other \<^verbatim>\<open>Exception\<close> with its
  text.
\<close>

datatype outcome = Returned py_str | TimedOut | Raised py_str

text \<open>
  How the suspended coroutine is resumed: with an outcome of the executor, or with the
  \<^verbatim>\<open>asyncio.CancelledError\<close> that \<^verbatim>\<open>Task.cancel()\<close> throws into it. With an outcome come
  the reading of the clock that follows it (line 160, 182 or 206), the reading in the
  \<^verbatim>\<open>except Exception\<close> handler when the \<^verbatim>\<open>try\<close> block fails after line 160, and the
  answers of the network to the webhook attempts.
\<close>

datatype resumption =
  Result datetime datetime "nat \<Rightarrow> string option" outcome | Cancel

text \<open>How \<^verbatim>\<open>_execute_task\<close> ends: it returns, or an exception leaves it.\<close>

datatype completion = Returns | RaisesException | RaisesCancelledError

text \<open>The description passed to the agent: the row's text, then the form data when the
  stored JSON is non-empty, parses, and gives a non-empty dictionary.\<close>

definition parse_form_data :: "env \<Rightarrow> task_row \<Rightarrow> form" where
  "parse_form_data e task =
     (case form_data task of
        None \<Rightarrow> []
      | Some txt \<Rightarrow>
          if txt = [] then []
          else (case json_loads e txt of None \<Rightarrow> [] | Some fd \<Rightarrow> fd))"

definition build_description :: "env \<Rightarrow> task_row \<Rightarrow> string" where
  "build_description e task =
     (if parse_form_data e task \<noteq> []
      then task_description task @ [CHR 0x0A, CHR 0x0A] @ ''Form data to use: '' @
           json_dumps_indent e (parse_form_data e task)
      else task_description task)"

text \<open>
  Lines 121 to 157, up to the \<^verbatim>\<open>await\<close> on the executor: load the row; when there is
  none, return; otherwise mark it running and invoke the executor. The result is the
  loaded row (the local \<^verbatim>\<open>task\<close>), if any.
\<close>

definition execute_start ::
  "env \<Rightarrow> datetime \<Rightarrow> string \<Rightarrow> system \<Rightarrow> task_row option \<times> system" where
  "execute_start e started tid s =
     (case get_task (db s) tid of
        None \<Rightarrow> (None, s)
      | Some task \<Rightarrow>
          (Some task,
           emit (ExecutorRun tid (url task) (build_description e task) (timeout task))
             (s\<lparr>db := update_status tid ''running'' (Some started) None None None (db s)\<rparr>)))"

text \<open>\<^verbatim>\<open>if task["callback_url"]:\<close> and its two variants: deliver when the URL is truthy.\<close>

definition callback_if :: "string option \<Rightarrow> (string \<Rightarrow> system \<Rightarrow> system) \<Rightarrow> system \<Rightarrow> system" where
  "callback_if cb deliver s =
     (case cb of None \<Rightarrow> s | Some u \<Rightarrow> if u = [] then s else deliver u s)"

definition timeout_message :: "task_row \<Rightarrow> string" where
  "timeout_message task = ''Task exceeded timeout of '' @ str_int (timeout task) @ '' seconds''"

text \<open>
  Lines 204 to 227, the \<^verbatim>\<open>except Exception as e\<close> handler, with the reading of the clock
  and \<^verbatim>\<open>str(e)\<close>. When the error message cannot be encoded the \<^verbatim>\<open>update_status\<close> of the
  handler raises and the exception leaves \<^verbatim>\<open>_execute_task\<close> with nothing written.
  Otherwise the row is marked failed, read again, and the callback delivered.
\<close>

definition on_exception ::
  "env \<Rightarrow> datetime \<Rightarrow> (nat \<Rightarrow> string option) \<Rightarrow> py_str \<Rightarrow> string \<Rightarrow> system \<Rightarrow>
   completion \<times> system" where
  "on_exception e completed http msg tid s =
     (case msg of
        Unencodable t \<Rightarrow> (RaisesException, s)
      | Str m \<Rightarrow>
          (Returns,
           (case get_task
                   (update_status tid ''failed'' None (Some completed) None
                      (Some (''Task execution error: '' @ m)) (db s)) tid of
              None \<Rightarrow>
                s\<lparr>db := update_status tid ''failed'' None (Some completed) None
                           (Some (''Task execution error: '' @ m)) (db s)\<rparr>
            | Some task' \<Rightarrow>
                callback_if (callback_url task')
                  (\<lambda>cb. send_callback e http tid cb ''failed'' None
                           (Some (''Task execution error: '' @ m)) completed)
                  (s\<lparr>db := update_status tid ''failed'' None (Some completed) None
                             (Some (''Task execution error: '' @ m)) (db s)\<rparr>))))"

text \<open>
  Lines 159 to 227: the rest of the \<^verbatim>\<open>try\<close> block after the executor returned, the
  \<^verbatim>\<open>except asyncio.TimeoutError\<close> handler, and the \<^verbatim>\<open>except Exception\<close> handler. A
  result that cannot be encoded makes the \<^verbatim>\<open>update_status\<close> of line 161 raise inside the
  \<^verbatim>\<open>try\<close> block, so the \<^verbatim>\<open>except Exception\<close> handler runs with the text of that error
  and a later reading of the clock.
\<close>

definition execute_finish ::
  "env \<Rightarrow> datetime \<Rightarrow> datetime \<Rightarrow> (nat \<Rightarrow> string option) \<Rightarrow> outcome \<Rightarrow> string \<Rightarrow> task_row \<Rightarrow>
   system \<Rightarrow> completion \<times> system" where
  "execute_finish e completed later http out tid task s =
     (case out of
        Returned res \<Rightarrow>
          (case res of
             Str r \<Rightarrow>
               (Returns,
                callback_if (callback_url task)
                  (\<lambda>cb. send_callback e http tid cb ''completed'' (Some r) None completed)
                  (s\<lparr>db := update_status tid ''completed'' None (Some completed) (Some r) None
                             (db s)\<rparr>))
           | Unencodable t \<Rightarrow> on_exception e later http (Str t) tid s)
      | TimedOut \<Rightarrow>
          (Returns,
           callback_if (callback_url task)
             (\<lambda>cb. send_callback e http tid cb ''timeout'' None (Some (timeout_message task))
                      completed)
             (s\<lparr>db := update_status tid ''timeout'' None (Some completed) None
                        (Some (timeout_message task)) (db s)\<rparr>))
      | Raised msg \<Rightarrow> on_exception e completed http msg tid s)"

text \<open>
  Resuming the suspended \<^verbatim>\<open>_execute_task\<close>. \<^verbatim>\<open>CancelledError\<close> derives from
  \<^verbatim>\<open>BaseException\<close>: neither \<^verbatim>\<open>except asyncio.TimeoutError\<close> nor \<^verbatim>\<open>except Exception\<close>
  catches it, so it leaves the function with nothing written.
\<close>

definition execute_resume ::
  "env \<Rightarrow> resumption \<Rightarrow> string \<Rightarrow> task_row \<Rightarrow> system \<Rightarrow> completion \<times> system" where
  "execute_resume e r tid task s =
     (case r of
        Cancel \<Rightarrow> (RaisesCancelledError, s)
      | Result completed later http out \<Rightarrow> execute_finish e completed later http out tid task s)"

definition execute_task ::
  "env \<Rightarrow> datetime \<Rightarrow> resumption \<Rightarrow> string \<Rightarrow> system \<Rightarrow> completion \<times> system" where
  "execute_task e started r tid s =
     (case execute_start e started tid s of
        (None, s1) \<Rightarrow> (Returns, s1)
      | (Some task, s1) \<Rightarrow> execute_resume e r tid task s1)"

subsection \<open>\<^verbatim>\<open>_worker\<close>, \<^verbatim>\<open>stop\<close>\<close>

text \<open>
  One pass of the \<^verbatim>\<open>while self.running\<close> loop, in two halves. \<open>worker_begin\<close> runs from
  the loop test to the suspension in the executor: with an empty queue
  \<^verbatim>\<open>asyncio.wait_for\<close> times out and the loop continues; otherwise the head is taken, made
  the current task and started. When the row is missing \<^verbatim>\<open>_execute_task\<close> has returned
  and the pass is over. \<open>worker_resume\<close> runs from the resumption to the end of the
  pass. After a return \<^verbatim>\<open>current_task_id\<close> is cleared; \<^verbatim>\<open>except Exception\<close> logs the
  exception, clears \<^verbatim>\<open>current_task_id\<close> as well and lets the loop go on;
  \<^verbatim>\<open>except asyncio.CancelledError: break\<close> ends the loop, and with it the task, without
  resetting \<^verbatim>\<open>current_task_id\<close>.
\<close>

definition worker_begin :: "env \<Rightarrow> datetime \<Rightarrow> system \<Rightarrow> system" where
  "worker_begin e started s =
     (if running s \<and> worker_task s = Some Pending \<and> frame s = None
      then (case queue s of
              [] \<Rightarrow> s
            | tid # rest \<Rightarrow>
                (case execute_start e started tid
                        (emit (QueueGet tid) (s\<lparr>queue := rest, current_task_id := Some tid\<rparr>)) of
                   (None, s1) \<Rightarrow> s1\<lparr>current_task_id := None\<rparr>
                 | (Some task, s1) \<Rightarrow> s1\<lparr>frame := Some (tid, task)\<rparr>))
      else s)"

definition worker_resume :: "env \<Rightarrow> resumption \<Rightarrow> system \<Rightarrow> system" where
  "worker_resume e r s =
     (case frame s of
        None \<Rightarrow> s
      | Some (tid, task) \<Rightarrow>
          (case execute_resume e r tid task s of
             (Returns, s1) \<Rightarrow> s1\<lparr>current_task_id := None, frame := None\<rparr>
           | (RaisesException, s1) \<Rightarrow> s1\<lparr>current_task_id := None, frame := None\<rparr>
           | (RaisesCancelledError, s1) \<Rightarrow> s1\<lparr>frame := None, worker_task := Some Done\<rparr>))"

definition worker_iteration :: "env \<Rightarrow> datetime \<Rightarrow> resumption \<Rightarrow> system \<Rightarrow> system" where
  "worker_iteration e started r s = worker_resume e r (worker_begin e started s)"

text \<open>The loop, for as many passes as there are inputs.\<close>

fun worker_run :: "env \<Rightarrow> (datetime \<times> resumption) list \<Rightarrow> system \<Rightarrow> system" where
  "worker_run e [] s = s"
| "worker_run e ((started, r) # inputs) s = worker_run e inputs (worker_iteration e started r s)"

text \<open>
  \<^verbatim>\<open>stop\<close>: clear the flag, cancel the worker's task and await it. A worker suspended
  in the executor is resumed with the cancellation; one waiting on the queue gets it
  inside \<^verbatim>\<open>asyncio.wait_for\<close> and breaks out of the loop.
\<close>

definition stop :: "env \<Rightarrow> system \<Rightarrow> system" where
  "stop e s =
     (case worker_task s of
        None \<Rightarrow> s\<lparr>running := False\<rparr>
      | Some Done \<Rightarrow> s\<lparr>running := False\<rparr>
      | Some Pending \<Rightarrow>
          (case frame s of
             None \<Rightarrow> s\<lparr>running := False, worker_task := Some Done\<rparr>
           | Some fr \<Rightarrow> worker_resume e Cancel (s\<lparr>running := False\<rparr>)))"

section \<open>Submission (api/models.py, api/server.py)\<close>

text \<open>
  The body of a POST to \<^verbatim>\<open>/tasks\<close> as it arrives, and \<^verbatim>\<open>TaskRequest\<close>, the pydantic
  model that validates it before \<^verbatim>\<open>create_task\<close> is called: both URLs must be HTTP URLs,
  the description has 10 to 2000 characters, the timeout lies between 30 and 3600 and
  is 300 when absent, and absent form data are the empty dictionary.
\<close>

record request_body =
  body_url :: string
  body_task_description :: string
  body_form_data :: "form option"
  body_callback_url :: "string option"
  body_timeout :: "int option"

record task_request =
  request_url :: string
  request_task_description :: string
  request_form_data :: form
  request_callback_url :: "string option"
  request_timeout :: int

definition TaskRequest :: "env \<Rightarrow> request_body \<Rightarrow> api_error + task_request" where
  "TaskRequest e b =
     (case http_url e (body_url b) of
        None \<Rightarrow> Inl ValidationError
      | Some u \<Rightarrow>
          if length (body_task_description b) < 10 \<or> 2000 < length (body_task_description b)
          then Inl ValidationError
          else (case (case body_callback_url b of
                        None \<Rightarrow> Some None
                      | Some c \<Rightarrow> map_option Some (http_url e c)) of
                  None \<Rightarrow> Inl ValidationError
                | Some cb \<Rightarrow>
                    (case body_timeout b of
                       None \<Rightarrow>
                         Inr \<lparr>request_url = u,
                              request_task_description = body_task_description b,
                              request_form_data = (case body_form_data b of None \<Rightarrow> [] | Some fd \<Rightarrow> fd),
                              request_callback_url = cb, request_timeout = 300\<rparr>
                     | Some t \<Rightarrow>
                         if t < 30 \<or> 3600 < t then Inl ValidationError
                         else Inr \<lparr>request_url = u,
                                   request_task_description = body_task_description b,
                                   request_form_data = (case body_form_data b of None \<Rightarrow> [] | Some fd \<Rightarrow> fd),
                                   request_callback_url = cb, request_timeout = t\<rparr>)))"

text \<open>The answer of the Chrome CDP probe: a response with its status code, or
  \<^verbatim>\<open>httpx.RequestError\<close>.\<close>

datatype cdp_probe = CdpResponse int | CdpRequestError

text \<open>\<^verbatim>\<open>TaskResponse\<close>: task id, status, queue position, creation time.\<close>

datatype task_response = TaskResponse string string "int option" datetime

text \<open>
  The endpoint \<^verbatim>\<open>create_task\<close> of api/server.py, with the probe's answer, the fresh
  \<^verbatim>\<open>uuid4\<close> and the clock as arguments. It refuses with 503 unless the probe answers 200,
  then inserts the row. It does not touch the task queue, and its response has no queue
  position.
\<close>

definition server_create_task ::
  "env \<Rightarrow> cdp_probe \<Rightarrow> string \<Rightarrow> datetime \<Rightarrow> task_request \<Rightarrow> system \<Rightarrow>
   api_error + (task_response \<times> system)" where
  "server_create_task e probe uuid now req s =
     (case probe of
        CdpRequestError \<Rightarrow> Inl (HTTPException 503)
      | CdpResponse code \<Rightarrow>
          if code \<noteq> 200 then Inl (HTTPException 503)
          else (case create_task e now uuid (request_url req) (request_task_description req)
                       (request_form_data req) (request_callback_url req) (request_timeout req)
                       (db s) of
                  Inl err \<Rightarrow> Inl err
                | Inr ((tid, st, created), tasks) \<Rightarrow>
                    Inr (TaskResponse tid st None created, s\<lparr>db := tasks\<rparr>)))"

text \<open>A submission: the body is validated into a \<^verbatim>\<open>TaskRequest\<close>, then the endpoint runs.\<close>

definition submit ::
  "env \<Rightarrow> cdp_probe \<Rightarrow> string \<Rightarrow> datetime \<Rightarrow> request_body \<Rightarrow> system \<Rightarrow>
   api_error + (task_response \<times> system)" where
  "submit e probe uuid now b s =
     (case TaskRequest e b of
        Inl err \<Rightarrow> Inl err
      | Inr req \<Rightarrow> server_create_task e probe uuid now req s)"

text \<open>The state a submission leaves: the old one when it is refused.\<close>

definition after_submit ::
  "env \<Rightarrow> cdp_probe \<Rightarrow> string \<Rightarrow> datetime \<Rightarrow> request_body \<Rightarrow> system \<Rightarrow> system" where
  "after_submit e probe uuid now b s =
     (case submit e probe uuid now b s of Inl err \<Rightarrow> s | Inr (resp, s1) \<Rightarrow> s1)"

text \<open>\<^verbatim>\<open>lifespan\<close>, startup half: \<^verbatim>\<open>init_database\<close> on the store.\<close>

definition startup :: "datetime \<Rightarrow> system \<Rightarrow> system" where
  "startup now s = s\<lparr>db := init_database now (db s)\<rparr>"

section \<open>Interleavings\<close>

text \<open>
  The operations that change the state, each atomic between two suspension points: a
  submission through the endpoint, \<^verbatim>\<open>add_task\<close>, the two halves of a worker pass (the
  second with an outcome of the executor), and the reconciliation.
\<close>

datatype operation =
    Submit cdp_probe string datetime request_body
  | AddTask string
  | WorkerBegin datetime
  | WorkerFinish datetime datetime "nat \<Rightarrow> string option" outcome
  | Reconcile datetime

fun step :: "env \<Rightarrow> operation \<Rightarrow> system \<Rightarrow> system" where
  "step e (Submit probe uuid now b) s = after_submit e probe uuid now b s"
| "step e (AddTask tid) s = add_task tid s"
| "step e (WorkerBegin started) s = worker_begin e started s"
| "step e (WorkerFinish completed later http out) s =
     worker_resume e (Result completed later http out) s"
| "step e (Reconcile now) s = startup now s"

fun run_ops :: "env \<Rightarrow> operation list \<Rightarrow> system \<Rightarrow> system" where
  "run_ops e [] s = s"
| "run_ops e (x # xs) s = run_ops e xs (step e x s)"

text \<open>A process that has just booted: the store reconciled, an empty queue, the worker
  started.\<close>

definition boot :: "datetime \<Rightarrow> database \<Rightarrow> system" where
  "boot now tasks = start (startup now (new_system tasks))"

section \<open>Predicates of the claims\<close>

text \<open>The status of the row with a given id, and the ids of the rows whose status is
  \<^verbatim>\<open>running\<close>.\<close>

definition status_of :: "database \<Rightarrow> string \<Rightarrow> string option" where
  "status_of tasks tid = map_option status (tasks tid)"

definition running_ids :: "database \<Rightarrow> string set" where
  "running_ids tasks = {k. status_of tasks k = Some ''running''}"

text \<open>The lifecycle columns of a row: status, result, error, start and completion.\<close>

definition lifecycle ::
  "task_row \<Rightarrow> string \<times> string option \<times> string option \<times> datetime option \<times> datetime option" where
  "lifecycle r = (status r, result r, error r, started_at r, completed_at r)"

text \<open>The events by kind: webhook posts, sleeps, dequeued ids, executed ids.\<close>

definition posts :: "event list \<Rightarrow> event list" where
  "posts evs = filter (\<lambda>ev. case ev of HttpPost u p t \<Rightarrow> True | _ \<Rightarrow> False) evs"

definition sleeps :: "event list \<Rightarrow> int list" where
  "sleeps evs = concat (map (\<lambda>ev. case ev of Sleep d \<Rightarrow> [d] | _ \<Rightarrow> []) evs)"

definition dequeued :: "event list \<Rightarrow> string list" where
  "dequeued evs = concat (map (\<lambda>ev. case ev of QueueGet tid \<Rightarrow> [tid] | _ \<Rightarrow> []) evs)"

definition executed :: "event list \<Rightarrow> string list" where
  "executed evs = concat (map (\<lambda>ev. case ev of ExecutorRun tid u d t \<Rightarrow> [tid] | _ \<Rightarrow> []) evs)"

text \<open>
  Attempt \<open>k\<close> failed; what is persisted as the last error after it (nothing after a
  success); and the events of attempt \<open>k\<close>.
\<close>

definition failed :: "(nat \<Rightarrow> string option) \<Rightarrow> nat \<Rightarrow> bool" where
  "failed out k = (out k \<noteq> None)"

definition last_error :: "(nat \<Rightarrow> string option) \<Rightarrow> nat \<Rightarrow> string option" where
  "last_error out k = (case out k of None \<Rightarrow> None | Some msg \<Rightarrow> Some (attempt_error k msg))"

definition attempt_events ::
  "env \<Rightarrow> (nat \<Rightarrow> string option) \<Rightarrow> string \<Rightarrow> callback_payload \<Rightarrow> nat \<Rightarrow> event list" where
  "attempt_events e out cb p k =
     HttpPost cb p (WEBHOOK_TIMEOUT e) #
     (if failed out k \<and> int k < WEBHOOK_RETRY_ATTEMPTS e - 1
      then [Sleep (WEBHOOK_RETRY_DELAY e * 2 ^ k)] else [])"

text \<open>
  The number of attempts the delivery loop makes when the outcomes of the attempts are
  \<open>out\<close>: one more than the number of leading failures, and at most
  \<^verbatim>\<open>WEBHOOK_RETRY_ATTEMPTS\<close>.
\<close>

definition attempts_made :: "env \<Rightarrow> (nat \<Rightarrow> string option) \<Rightarrow> nat" where
  "attempts_made e out =
     min (nat (WEBHOOK_RETRY_ATTEMPTS e))
       (Suc (length (takeWhile (failed out) [0..<nat (WEBHOOK_RETRY_ATTEMPTS e)])))"

section \<open>Example data\<close>

text \<open>The defaults of api/config.py, with stand-ins for the library functions.\<close>

definition example_env :: env where
  "example_env =
     \<lparr>WEBHOOK_RETRY_ATTEMPTS = 3, WEBHOOK_RETRY_DELAY = 2, WEBHOOK_TIMEOUT = 10,
      json_dumps = (\<lambda>fd. ''{}''), json_loads = (\<lambda>txt. Some []),
      json_dumps_indent = (\<lambda>fd. ''{}''), http_url = (\<lambda>u. Some u)\<rparr>"

definition example_row :: "string \<Rightarrow> string option \<Rightarrow> task_row" where
  "example_row st cb =
     \<lparr>url = ''http://example/form'', task_description = ''Fill in the form'',
      form_data = Some ''{}'', callback_url = cb, timeout = 30, status = st,
      result = None, error = None, callback_attempts = 0, last_callback_error = None,
      created_at = 1, started_at = None, completed_at = None\<rparr>"

text \<open>A network on which every request is answered with a 2xx response.\<close>

definition example_http :: "nat \<Rightarrow> string option" where
  "example_http k = None"

definition example_system :: system where
  "example_system = new_system [''B'' \<mapsto> example_row ''timeout'' (Some ''http://example/cb'')]"

definition example_body :: request_body where
  "example_body =
     \<lparr>body_url = ''http://example/form'', body_task_description = ''Fill in the form'',
      body_form_data = None, body_callback_url = None, body_timeout = Some 300\<rparr>"

definition example_queued :: system where
  "example_queued = new_system [''B'' \<mapsto> example_row ''queued'' (Some ''http://example/cb'')]"

text \<open>Two submitted and queued tasks, the first of which fails with a text that cannot
  be encoded, after the second has been started.\<close>

definition example_two_running :: system where
  "example_two_running =
     run_ops example_env
       [Submit (CdpResponse 200) ''A'' 1 example_body,
        Submit (CdpResponse 200) ''B'' 1 example_body,
        AddTask ''A'', AddTask ''B'',
        WorkerBegin 2,
        WorkerFinish 3 4 example_http (Raised (Unencodable ''surrogates not allowed'')),
        WorkerBegin 5]
       (boot 0 Map.empty)"

text \<open>The worker suspended in the executor of task \<^verbatim>\<open>B\<close>.\<close>

definition example_executing :: system where
  "example_executing = worker_begin example_env 2 (add_task ''B'' (start example_queued))"

text \<open>
  The events of one delivery to \<open>cb\<close> with payload \<open>p\<close>: a POST for each attempt made,
  and after every attempt but the last the backoff sleep.
\<close>

definition delivery_events ::
  "env \<Rightarrow> (nat \<Rightarrow> string option) \<Rightarrow> string \<Rightarrow> callback_payload \<Rightarrow> event list" where
  "delivery_events e http cb p =
     concat (map (\<lambda>k. HttpPost cb p (WEBHOOK_TIMEOUT e) #
                      (if Suc k < attempts_made e (post_outcome http p)
                       then [Sleep (WEBHOOK_RETRY_DELAY e * 2 ^ k)] else []))
       [0..<attempts_made e (post_outcome http p)])"

text \<open>
  A started worker with two queued tasks: \<^verbatim>\<open>A\<close>, which has a callback URL, then
  \<^verbatim>\<open>B\<close>.
\<close>

definition example_two_queued :: system where
  "example_two_queued =
     add_task ''B'' (add_task ''A'' (start (new_system
       [''A'' \<mapsto> example_row ''queued'' (Some ''http://example/cb''),
        ''B'' \<mapsto> example_row ''queued'' None])))"


section \<open>State and event lemmas\<close>

lemma emit_simps [simp]:
  "db (emit ev s) = db s" "queue (emit ev s) = queue s"
  "current_task_id (emit ev s) = current_task_id s" "worker_task (emit ev s) = worker_task s"
  "running (emit ev s) = running s" "frame (emit ev s) = frame s"
  "trace (emit ev s) = trace s @ [ev]"
  by (simp_all add: emit_def)

lemma record_attempt_simps [simp]:
  "db (record_attempt tid n err s) = update_callback_attempt tid n err (db s)"
  "queue (record_attempt tid n err s) = queue s"
  "current_task_id (record_attempt tid n err s) = current_task_id s"
  "worker_task (record_attempt tid n err s) = worker_task s"
  "running (record_attempt tid n err s) = running s"
  "frame (record_attempt tid n err s) = frame s"
  "trace (record_attempt tid n err s) = trace s"
  by (simp_all add: record_attempt_def)

lemma backoff_simps [simp]:
  "db (backoff e k s) = db s" "queue (backoff e k s) = queue s"
  "current_task_id (backoff e k s) = current_task_id s" "worker_task (backoff e k s) = worker_task s"
  "running (backoff e k s) = running s" "frame (backoff e k s) = frame s"
  "trace (backoff e k s) =
     trace s @ (if int k < WEBHOOK_RETRY_ATTEMPTS e - 1 then [Sleep (WEBHOOK_RETRY_DELAY e * 2 ^ k)] else [])"
  by (simp_all add: backoff_def)

lemma posts_append [simp]: "posts (xs @ ys) = posts xs @ posts ys"
  by (simp add: posts_def)

lemma sleeps_append [simp]: "sleeps (xs @ ys) = sleeps xs @ sleeps ys"
  by (simp add: sleeps_def)

lemma dequeued_append [simp]: "dequeued (xs @ ys) = dequeued xs @ dequeued ys"
  by (simp add: dequeued_def)

lemma executed_append [simp]: "executed (xs @ ys) = executed xs @ executed ys"
  by (simp add: executed_def)

lemma projections_Cons [simp]:
  "posts (HttpPost u p t # evs) = HttpPost u p t # posts evs" "posts (Sleep d # evs) = posts evs"
  "posts (QueueGet tid # evs) = posts evs" "posts (ExecutorRun tid u dsc tmo # evs) = posts evs"
  "sleeps (HttpPost u p t # evs) = sleeps evs" "sleeps (Sleep d # evs) = d # sleeps evs"
  "sleeps (QueueGet tid # evs) = sleeps evs" "sleeps (ExecutorRun tid u dsc tmo # evs) = sleeps evs"
  "dequeued (HttpPost u p t # evs) = dequeued evs" "dequeued (Sleep d # evs) = dequeued evs"
  "dequeued (QueueGet tid # evs) = tid # dequeued evs"
  "dequeued (ExecutorRun tid u dsc tmo # evs) = dequeued evs"
  "executed (HttpPost u p t # evs) = executed evs" "executed (Sleep d # evs) = executed evs"
  "executed (QueueGet tid # evs) = executed evs"
  "executed (ExecutorRun tid u dsc tmo # evs) = tid # executed evs"
  "posts [] = []" "sleeps [] = []" "dequeued [] = []" "executed [] = []"
  by (simp_all add: posts_def sleeps_def dequeued_def executed_def)

lemma update_callback_attempt_twice [simp]:
  "update_callback_attempt tid n2 e2 (update_callback_attempt tid n1 e1 tasks)
     = update_callback_attempt tid n2 e2 tasks"
  by (simp add: update_callback_attempt_def split: option.splits)

lemma attempt_once_fields [simp]:
  "queue (snd (attempt_once e http tid cb p k s)) = queue s"
  "current_task_id (snd (attempt_once e http tid cb p k s)) = current_task_id s"
  "worker_task (snd (attempt_once e http tid cb p k s)) = worker_task s"
  "running (snd (attempt_once e http tid cb p k s)) = running s"
  "frame (snd (attempt_once e http tid cb p k s)) = frame s"
  by (simp_all add: attempt_once_def split: option.splits)

lemma attempt_once_fst: "fst (attempt_once e http tid cb p k s) = (http k = None)"
  by (simp add: attempt_once_def split: option.splits)

lemma attempt_once_db:
  "db (snd (attempt_once e http tid cb p k s)) =
     update_callback_attempt tid (int k + 1) (last_error http k) (db s)"
  by (simp add: attempt_once_def last_error_def split: option.splits)

lemma attempt_once_trace:
  "trace (snd (attempt_once e http tid cb p k s)) =
     trace s @ [HttpPost cb p (WEBHOOK_TIMEOUT e)] @
     (if failed http k \<and> int k < WEBHOOK_RETRY_ATTEMPTS e - 1
      then [Sleep (WEBHOOK_RETRY_DELAY e * 2 ^ k)] else [])"
  by (simp add: attempt_once_def failed_def split: option.splits)

lemma loop_Cons:
  "send_callback_loop e http tid cb p (k # ks) s =
     (if \<not> failed http k then snd (attempt_once e http tid cb p k s)
      else send_callback_loop e http tid cb p ks (snd (attempt_once e http tid cb p k s)))"
  by (simp add: attempt_once_def failed_def split: option.splits)

lemma loop_fields:
  "queue (send_callback_loop e http tid cb p ks s) = queue s
   \<and> current_task_id (send_callback_loop e http tid cb p ks s) = current_task_id s
   \<and> worker_task (send_callback_loop e http tid cb p ks s) = worker_task s
   \<and> running (send_callback_loop e http tid cb p ks s) = running s
   \<and> frame (send_callback_loop e http tid cb p ks s) = frame s"
  by (induction ks arbitrary: s) (simp_all add: loop_Cons del: send_callback_loop.simps(2))

lemma loop_posts:
  "posts (trace (send_callback_loop e http tid cb p ks s)) =
     posts (trace s) @
     replicate (min (length ks) (Suc (length (takeWhile (failed http) ks))))
       (HttpPost cb p (WEBHOOK_TIMEOUT e))"
  by (induction ks arbitrary: s)
     (simp_all add: loop_Cons attempt_once_trace del: send_callback_loop.simps(2))

lemma loop_sleeps:
  "sleeps (trace (send_callback_loop e http tid cb p ks s)) =
     sleeps (trace s) @
     map (\<lambda>k. WEBHOOK_RETRY_DELAY e * 2 ^ k)
       (filter (\<lambda>k. int k < WEBHOOK_RETRY_ATTEMPTS e - 1) (takeWhile (failed http) ks))"
  by (induction ks arbitrary: s)
     (simp_all add: loop_Cons attempt_once_trace del: send_callback_loop.simps(2))

lemma loop_other_events:
  "dequeued (trace (send_callback_loop e http tid cb p ks s)) = dequeued (trace s)
   \<and> executed (trace (send_callback_loop e http tid cb p ks s)) = executed (trace s)"
  by (induction ks arbitrary: s)
     (simp_all add: loop_Cons attempt_once_trace del: send_callback_loop.simps(2))

lemma loop_db:
  "ks \<noteq> [] \<Longrightarrow>
   db (send_callback_loop e http tid cb p ks s) =
     update_callback_attempt tid
       (int (ks ! min (length ks - 1) (length (takeWhile (failed http) ks))) + 1)
       (last_error http (ks ! min (length ks - 1) (length (takeWhile (failed http) ks))))
       (db s)"
proof (induction ks arbitrary: s)
  case Nil
  then show ?case by simp
next
  case (Cons k ks)
  show ?case
  proof (cases "failed http k")
    case False
    then show ?thesis by (simp add: loop_Cons attempt_once_db del: send_callback_loop.simps(2))
  next
    case True
    show ?thesis
    proof (cases "ks = []")
      case empty: True
      with True show ?thesis
        by (simp add: loop_Cons attempt_once_db del: send_callback_loop.simps(2))
    next
      case nonempty: False
      then have "0 < length ks" by simp
      then have m: "min (length ks) (Suc (length (takeWhile (failed http) ks)))
                 = Suc (min (length ks - 1) (length (takeWhile (failed http) ks)))"
        by (cases "length ks") simp_all
      from True nonempty show ?thesis
        by (simp add: loop_Cons Cons.IH attempt_once_db m del: send_callback_loop.simps(2))
    qed
  qed
qed


lemma takeWhile_upt_prefix:
  "takeWhile P [0..<n] = [0..<length (takeWhile P [0..<n])]"
proof -
  have "length (takeWhile P [0..<n]) \<le> n"
    using length_takeWhile_le [of P "[0..<n]"] by simp
  then have "take (length (takeWhile P [0..<n])) [0..<n] = [0..<length (takeWhile P [0..<n])]"
    by (simp add: take_upt)
  then show ?thesis
    using takeWhile_eq_take [of P "[0..<n]"] by simp
qed

lemma filter_less_upt: "filter (\<lambda>k. k < b) [0..<f] = [0..<min f b]"
proof (induction f)
  case 0
  show ?case by simp
next
  case (Suc f)
  show ?case
  proof (cases "f < b")
    case True
    with Suc show ?thesis by (simp add: min_def)
  next
    case False
    then have "min f b = b" "min (Suc f) b = b" by simp_all
    with Suc False show ?thesis by simp
  qed
qed


lemma status_of_update_callback_attempt [simp]:
  "status_of (update_callback_attempt tid n err tasks) = status_of tasks"
  by (rule ext) (simp add: status_of_def update_callback_attempt_def split: option.splits)

lemma callback_loop_facts:
  fixes e http tid cb p s
  defines "n \<equiv> nat (WEBHOOK_RETRY_ATTEMPTS e)"
  defines "f \<equiv> length (takeWhile (failed http) [0..<nat (WEBHOOK_RETRY_ATTEMPTS e)])"
  defines "m \<equiv> min (nat (WEBHOOK_RETRY_ATTEMPTS e)) (Suc (length (takeWhile (failed http) [0..<nat (WEBHOOK_RETRY_ATTEMPTS e)])))"
  defines "s' \<equiv> send_callback_loop e http tid cb p [0..<nat (WEBHOOK_RETRY_ATTEMPTS e)] s"
  shows "m \<le> n"
    and "0 < n \<Longrightarrow> 0 < m"
    and "posts (trace s') = posts (trace s) @
           replicate m (HttpPost cb p (WEBHOOK_TIMEOUT e))"
    and "Suc k < m \<Longrightarrow> http k \<noteq> None"
    and "m < n \<Longrightarrow> http (m - 1) = None"
    and "sleeps (trace s') = sleeps (trace s) @ map (\<lambda>k. WEBHOOK_RETRY_DELAY e * 2 ^ k) [0..<m - 1]"
    and "0 < m \<Longrightarrow> db s' = update_callback_attempt tid (int m) (last_error http (m - 1)) (db s)"
    and "m = 0 \<Longrightarrow> s' = s"
proof -
  have tw: "takeWhile (failed http) [0..<n] = [0..<f]"
    unfolding n_def f_def by (rule takeWhile_upt_prefix)
  have fn: "f \<le> n"
    unfolding n_def f_def using length_takeWhile_le [of "failed http" "[0..<nat (WEBHOOK_RETRY_ATTEMPTS e)]"] by simp
  have m: "m = min n (Suc f)" by (simp add: m_def n_def f_def)
  show "m \<le> n" by (simp add: m)
  show "0 < n \<Longrightarrow> 0 < m" by (simp add: m)
  show "posts (trace s') = posts (trace s) @
           replicate m (HttpPost cb p (WEBHOOK_TIMEOUT e))"
    by (simp add: s'_def loop_posts m_def)
  show "Suc k < m \<Longrightarrow> http k \<noteq> None"
  proof -
    assume "Suc k < m"
    then have "k < f" by (simp add: m)
    then have "k \<in> set (takeWhile (failed http) [0..<n])" by (simp add: tw)
    then have "failed http k" by (rule set_takeWhileD [THEN conjunct2])
    then show ?thesis by (simp add: failed_def)
  qed
  show "m < n \<Longrightarrow> http (m - 1) = None"
  proof -
    assume "m < n"
    then have fl: "f < n" and mf: "m = Suc f" by (simp_all add: m min_def split: if_splits)
    from fl have "length (takeWhile (failed http) [0..<n]) < length [0..<n]" by (simp add: tw)
    then have "\<not> failed http ([0..<n] ! length (takeWhile (failed http) [0..<n]))"
      by (rule nth_length_takeWhile)
    with fl have "\<not> failed http f" by (simp add: tw)
    then show ?thesis by (simp add: failed_def mf)
  qed
  show "sleeps (trace s') = sleeps (trace s) @ map (\<lambda>k. WEBHOOK_RETRY_DELAY e * 2 ^ k) [0..<m - 1]"
  proof -
    have "filter (\<lambda>k. int k < WEBHOOK_RETRY_ATTEMPTS e - 1) [0..<f] = [0..<m - 1]"
    proof (cases "n = 0")
      case True
      with fn show ?thesis by (simp add: m)
    next
      case False
      then have "\<And>k. (int k < WEBHOOK_RETRY_ATTEMPTS e - 1) = (k < n - 1)"
        by (auto simp: n_def)
      then have "filter (\<lambda>k. int k < WEBHOOK_RETRY_ATTEMPTS e - 1) [0..<f] = [0..<min f (n - 1)]"
        by (simp add: filter_less_upt)
      moreover from False have "min f (n - 1) = m - 1" by (auto simp: m min_def)
      ultimately show ?thesis by simp
    qed
    then show ?thesis
      using tw by (simp add: s'_def loop_sleeps n_def)
  qed
  show "0 < m \<Longrightarrow> db s' = update_callback_attempt tid (int m) (last_error http (m - 1)) (db s)"
  proof -
    assume "0 < m"
    then have pos: "0 < n" by (simp add: m)
    then have ne: "[0..<n] \<noteq> []" by simp
    have idx: "min (length [0..<n] - 1) (length (takeWhile (failed http) [0..<n])) = m - 1"
      using pos by (auto simp: tw m min_def)
    have lt: "m - 1 < n" using pos by (auto simp: m min_def)
    have "db (send_callback_loop e http tid cb p [0..<n] s) =
            update_callback_attempt tid (int ([0..<n] ! (m - 1)) + 1)
              (last_error http ([0..<n] ! (m - 1))) (db s)"
      using loop_db [OF ne, of e http tid cb p s]
      by (simp only: idx)
    moreover have "[0..<n] ! (m - 1) = m - 1" using lt by simp
    moreover have "int (m - 1) + 1 = int m" using \<open>0 < m\<close> by simp
    ultimately show ?thesis by (simp add: s'_def n_def)
  qed
  show "m = 0 \<Longrightarrow> s' = s"
  proof -
    assume "m = 0"
    then have "n = 0" by (simp add: m min_def split: if_splits)
    then show ?thesis by (simp add: s'_def n_def)
  qed
qed

lemma loop_trace:
  "trace (send_callback_loop e http tid cb p ks s) =
     trace s @
     concat (map (attempt_events e http cb p)
       (take (min (length ks) (Suc (length (takeWhile (failed http) ks)))) ks))"
  by (induction ks arbitrary: s)
     (simp_all add: loop_Cons attempt_once_trace attempt_events_def del: send_callback_loop.simps(2))

lemma callback_loop_trace:
  fixes e http tid cb p s
  defines "m \<equiv> min (nat (WEBHOOK_RETRY_ATTEMPTS e)) (Suc (length (takeWhile (failed http) [0..<nat (WEBHOOK_RETRY_ATTEMPTS e)])))"
  shows "trace (send_callback_loop e http tid cb p [0..<nat (WEBHOOK_RETRY_ATTEMPTS e)] s) =
     trace s @
     concat (map (\<lambda>k. HttpPost cb p (WEBHOOK_TIMEOUT e) #
                      (if Suc k < m then [Sleep (WEBHOOK_RETRY_DELAY e * 2 ^ k)] else []))
       [0..<m])"
proof -
  let ?n = "nat (WEBHOOK_RETRY_ATTEMPTS e)"
  let ?p = p
  have mn: "m \<le> ?n" by (simp add: m_def)
  then have tk: "take m [0..<?n] = [0..<m]" by (simp add: take_upt)
  have blk: "attempt_events e http cb ?p k =
        HttpPost cb ?p (WEBHOOK_TIMEOUT e) #
          (if Suc k < m then [Sleep (WEBHOOK_RETRY_DELAY e * 2 ^ k)] else [])"
    if "k < m" for k
  proof (cases "Suc k < m")
    case True
    then have "http k \<noteq> None"
      using callback_loop_facts(4) [of k e http] by (simp add: m_def)
    moreover from True mn have "int k < WEBHOOK_RETRY_ATTEMPTS e - 1" by linarith
    ultimately show ?thesis using True by (simp add: attempt_events_def failed_def)
  next
    case False
    with that have km: "m = Suc k" by simp
    show ?thesis
    proof (cases "m < ?n")
      case True
      then have "http (m - 1) = None"
        using callback_loop_facts(5) [of e http] by (simp add: m_def)
      then show ?thesis using km by (simp add: attempt_events_def failed_def)
    next
      case False
      with mn have "m = ?n" by simp
      with km have "\<not> int k < WEBHOOK_RETRY_ATTEMPTS e - 1" by linarith
      then show ?thesis using km by (simp add: attempt_events_def)
    qed
  qed
  have eq: "map (attempt_events e http cb ?p) [0..<m] =
        map (\<lambda>k. HttpPost cb ?p (WEBHOOK_TIMEOUT e) #
                      (if Suc k < m then [Sleep (WEBHOOK_RETRY_DELAY e * 2 ^ k)] else [])) [0..<m]"
    by (rule map_cong) (simp_all add: blk)
  have "trace (send_callback_loop e http tid cb p [0..<nat (WEBHOOK_RETRY_ATTEMPTS e)] s) =
          trace s @ concat (map (attempt_events e http cb ?p) (take m [0..<?n]))"
    by (simp add: loop_trace m_def)
  then show ?thesis by (simp only: tk eq)
qed

section \<open>Startup reconciliation\<close>

lemma init_database_apply:
  "init_database now tasks k =
     (case tasks k of
        None \<Rightarrow> None
      | Some r \<Rightarrow>
          if status r = ''queued'' \<or> status r = ''running''
          then Some (r\<lparr>status := ''failed'',
                       error := Some ''Server restarted during execution'',
                       completed_at := Some now\<rparr>)
          else Some r)"
  by (simp add: init_database_def initialize_def mark_incomplete_as_failed_def)

text \<open>
  Claim C3, as the code has it. After \<open>init_database\<close> no row has status \<^verbatim>\<open>queued\<close> or
  \<^verbatim>\<open>running\<close>; every row that had one of them is the same row with status \<^verbatim>\<open>failed\<close>,
  error \<^verbatim>\<open>Server restarted during execution\<close> (capital S) and \<^verbatim>\<open>completed_at\<close> the
  reconciliation time; every other row is unchanged, and no row appears or disappears.
\<close>

theorem reconcile_on_startup:
  "(\<forall>k r. init_database now tasks k = Some r \<longrightarrow>
        status r \<noteq> ''queued'' \<and> status r \<noteq> ''running'')
   \<and> (\<forall>k r. tasks k = Some r \<and> (status r = ''queued'' \<or> status r = ''running'') \<longrightarrow>
        init_database now tasks k =
          Some (r\<lparr>status := ''failed'',
                  error := Some ''Server restarted during execution'',
                  completed_at := Some now\<rparr>))
   \<and> (\<forall>k r. tasks k = Some r \<and> status r \<noteq> ''queued'' \<and> status r \<noteq> ''running'' \<longrightarrow>
        init_database now tasks k = Some r)
   \<and> (\<forall>k. tasks k = None \<longrightarrow> init_database now tasks k = None)"
  by (auto simp: init_database_apply split: option.splits if_splits)

theorem reconcile_on_startup_witness:
  "init_database 9
     [''C'' \<mapsto> example_row ''queued'' None, ''D'' \<mapsto> example_row ''completed'' None] ''C''
     = Some ((example_row ''queued'' None)
               \<lparr>status := ''failed'',
                error := Some ''Server restarted during execution'',
                completed_at := Some 9\<rparr>)
   \<and> init_database 9
       [''C'' \<mapsto> example_row ''queued'' None, ''D'' \<mapsto> example_row ''completed'' None] ''D''
     = Some (example_row ''completed'' None)"
proof -
  let ?M = "[''C'' \<mapsto> example_row ''queued'' None, ''D'' \<mapsto> example_row ''completed'' None]"
  have marked: "\<And>k r. ?M k = Some r \<Longrightarrow> status r = ''queued'' \<or> status r = ''running'' \<Longrightarrow>
        init_database 9 ?M k =
          Some (r\<lparr>status := ''failed'',
                  error := Some ''Server restarted during execution'',
                  completed_at := Some 9\<rparr>)"
    and kept: "\<And>k r. ?M k = Some r \<Longrightarrow> status r \<noteq> ''queued'' \<Longrightarrow> status r \<noteq> ''running'' \<Longrightarrow>
        init_database 9 ?M k = Some r"
    using reconcile_on_startup [of 9 ?M] by blast+
  have c: "?M ''C'' = Some (example_row ''queued'' None)" by simp
  have d: "?M ''D'' = Some (example_row ''completed'' None)" by simp
  have "status (example_row ''queued'' None) = ''queued''" by (simp add: example_row_def)
  then have 1: "init_database 9 ?M ''C'' = Some ((example_row ''queued'' None)
               \<lparr>status := ''failed'',
                error := Some ''Server restarted during execution'',
                completed_at := Some 9\<rparr>)"
    using marked [OF c] by blast
  have "status (example_row ''completed'' None) \<noteq> ''queued''"
       "status (example_row ''completed'' None) \<noteq> ''running''"
    by (simp_all add: example_row_def)
  then have 2: "init_database 9 ?M ''D'' = Some (example_row ''completed'' None)"
    using kept [OF d] by blast
  from 1 2 show ?thesis by blast
qed

text \<open>
  The failure reason the reconciliation writes is not the text
  \<^verbatim>\<open>server restarted during execution\<close> of claim C3: the first letter is a capital.
\<close>

theorem reconcile_reason_counterexample:
  "map_option error (init_database 9 [''C'' \<mapsto> example_row ''queued'' None] ''C'')
     = Some (Some ''Server restarted during execution'')
   \<and> map_option error (init_database 9 [''C'' \<mapsto> example_row ''queued'' None] ''C'')
     \<noteq> Some (Some ''server restarted during execution'')"
  by (simp add: init_database_apply example_row_def)

section \<open>Updates of an unknown id\<close>

text \<open>
  Claim C8, as the code has it. Every lifecycle transition is an \<open>update_status\<close> or an
  \<open>update_callback_attempt\<close>; when the store has no row with the given id, either one
  returns normally and leaves the store as it was.
\<close>

theorem update_unknown_id:
  "tasks tid = None \<Longrightarrow>
     update_status tid st started completed res err tasks = tasks
     \<and> update_callback_attempt tid n cerr tasks = tasks"
  by (simp add: update_status_def update_callback_attempt_def)

theorem update_unknown_id_witness:
  "update_status ''nobody'' ''running'' (Some 3) None None None
     [''C'' \<mapsto> example_row ''queued'' None]
     = [''C'' \<mapsto> example_row ''queued'' None]
   \<and> update_callback_attempt ''nobody'' 1 None [''C'' \<mapsto> example_row ''queued'' None]
     = [''C'' \<mapsto> example_row ''queued'' None]"
  using update_unknown_id [of "[''C'' \<mapsto> example_row ''queued'' None]" "''nobody''"]
  by simp

text \<open>
  On the empty store, marking \<^verbatim>\<open>nobody\<close> completed and recording a callback attempt for
  it both succeed and change nothing: no \<^verbatim>\<open>NotFoundError\<close>, against claim C8.
\<close>

theorem update_unknown_id_counterexample:
  "update_status ''nobody'' ''completed'' None (Some 4) (Some ''done'') None Map.empty = Map.empty
   \<and> update_callback_attempt ''nobody'' 1 None Map.empty = Map.empty"
  by (simp add: update_status_def update_callback_attempt_def)

section \<open>Delivery lemmas\<close>

lemma post_outcome_fails:
  "post_outcome http p k = Some ''Object of type datetime is not JSON serializable''"
  by (cases p) (simp add: post_outcome_def)

lemma failed_post_outcome [simp]: "failed (post_outcome http p) k"
  by (simp add: failed_def post_outcome_fails)

lemma attempts_made_post_outcome [simp]:
  "attempts_made e (post_outcome http p) = nat (WEBHOOK_RETRY_ATTEMPTS e)"
proof -
  have tw: "takeWhile (failed (post_outcome http p)) [0..<nat (WEBHOOK_RETRY_ATTEMPTS e)]
          = [0..<nat (WEBHOOK_RETRY_ATTEMPTS e)]"
    by (rule takeWhile_eq_all_conv [THEN iffD2]) simp
  show ?thesis unfolding attempts_made_def tw by simp
qed


lemma update_status_Some:
  "tasks tid = Some r \<Longrightarrow>
     update_status tid st started completed res err tasks =
       tasks(tid \<mapsto>
         r\<lparr>status := st,
           started_at := (case started of None \<Rightarrow> started_at r | Some t \<Rightarrow> Some t),
           completed_at := (case completed of None \<Rightarrow> completed_at r | Some t \<Rightarrow> Some t),
           result := (case res of None \<Rightarrow> result r | Some v \<Rightarrow> Some v),
           error := (case err of None \<Rightarrow> error r | Some v \<Rightarrow> Some v)\<rparr>)"
  by (simp add: update_status_def)

lemma lifecycle_update_callback_attempt [simp]:
  "map_option lifecycle (update_callback_attempt tid n err tasks k) = map_option lifecycle (tasks k)"
  by (simp add: update_callback_attempt_def lifecycle_def split: option.splits)

lemma callback_loop_cases:
  "send_callback_loop e out tid cb p [0..<nat (WEBHOOK_RETRY_ATTEMPTS e)] s = s
   \<or> db (send_callback_loop e out tid cb p [0..<nat (WEBHOOK_RETRY_ATTEMPTS e)] s) =
        update_callback_attempt tid (int (attempts_made e out))
          (last_error out (attempts_made e out - 1)) (db s)"
proof (cases "attempts_made e out = 0")
  case True
  then show ?thesis
    unfolding attempts_made_def using callback_loop_facts(8) [of e out] by blast
next
  case False
  then show ?thesis
    unfolding attempts_made_def using callback_loop_facts(7) [of e out] by blast
qed

lemma send_callback_cases:
  "send_callback e http tid cb st res err completed s = s
   \<or> (\<exists>n lerr. db (send_callback e http tid cb st res err completed s) =
        update_callback_attempt tid n lerr (db s))"
  unfolding send_callback_def
  using callback_loop_cases [of e "post_outcome http (CallbackPayload tid st res err completed)"
          tid cb "CallbackPayload tid st res err completed" s]
  by blast

lemma send_callback_lifecycle [simp]:
  "map_option lifecycle (db (send_callback e http tid cb st res err completed s) k)
     = map_option lifecycle (db s k)"
  using send_callback_cases [of e http tid cb st res err completed s] by auto

lemma send_callback_status [simp]:
  "status_of (db (send_callback e http tid cb st res err completed s)) = status_of (db s)"
  using send_callback_cases [of e http tid cb st res err completed s] by auto

lemma send_callback_dom [simp]:
  "(db (send_callback e http tid cb st res err completed s) k = None) = (db s k = None)"
  using send_callback_lifecycle [of e http tid cb st res err completed s k]
  by (metis map_option_is_None)

lemma send_callback_fields [simp]:
  "queue (send_callback e http tid cb st res err completed s) = queue s"
  "current_task_id (send_callback e http tid cb st res err completed s) = current_task_id s"
  "worker_task (send_callback e http tid cb st res err completed s) = worker_task s"
  "running (send_callback e http tid cb st res err completed s) = running s"
  "frame (send_callback e http tid cb st res err completed s) = frame s"
  by (simp_all add: send_callback_def loop_fields)

lemma send_callback_other_events [simp]:
  "dequeued (trace (send_callback e http tid cb st res err completed s)) = dequeued (trace s)"
  "executed (trace (send_callback e http tid cb st res err completed s)) = executed (trace s)"
  by (simp_all add: send_callback_def loop_other_events)

text \<open>Every attempt of \<open>send_callback\<close> fails on the encoding of the body: all
  \<^verbatim>\<open>WEBHOOK_RETRY_ATTEMPTS\<close> attempts are made, with every sleep but the last.\<close>

lemma send_callback_events:
  "trace (send_callback e http tid cb st res err completed s) =
     trace s @
     concat (map (\<lambda>k. HttpPost cb (CallbackPayload tid st res err completed) (WEBHOOK_TIMEOUT e) #
                      (if Suc k < nat (WEBHOOK_RETRY_ATTEMPTS e)
                       then [Sleep (WEBHOOK_RETRY_DELAY e * 2 ^ k)] else []))
       [0..<nat (WEBHOOK_RETRY_ATTEMPTS e)])"
  using callback_loop_trace [of e "post_outcome http (CallbackPayload tid st res err completed)"
          tid cb "CallbackPayload tid st res err completed" s]
  by (simp add: send_callback_def attempts_made_def [symmetric])


lemma send_callback_sleeps:
  "sleeps (trace (send_callback e http tid cb st res err completed s)) =
     sleeps (trace s) @
     map (\<lambda>k. WEBHOOK_RETRY_DELAY e * 2 ^ k) [0..<nat (WEBHOOK_RETRY_ATTEMPTS e) - 1]"
  using callback_loop_facts(6) [of e "post_outcome http (CallbackPayload tid st res err completed)"
          tid cb "CallbackPayload tid st res err completed" s]
  by (simp add: send_callback_def attempts_made_def [symmetric])


section \<open>Execution lemmas\<close>

lemma callback_if_cases:
  "callback_if cb deliver s = (if truthy cb then deliver (the cb) s else s)"
  by (simp add: callback_if_def truthy_def split: option.splits)

lemma execute_start_None: "db s tid = None \<Longrightarrow> execute_start e started tid s = (None, s)"
  by (simp add: execute_start_def get_task_def)

lemma execute_start_Some:
  "db s tid = Some task \<Longrightarrow>
     execute_start e started tid s =
       (Some task,
        emit (ExecutorRun tid (url task) (build_description e task) (timeout task))
          (s\<lparr>db := update_status tid ''running'' (Some started) None None None (db s)\<rparr>))"
  by (simp add: execute_start_def get_task_def)

lemma on_exception_fields [simp]:
  "queue (snd (on_exception e now http msg tid s)) = queue s"
  "current_task_id (snd (on_exception e now http msg tid s)) = current_task_id s"
  "worker_task (snd (on_exception e now http msg tid s)) = worker_task s"
  "running (snd (on_exception e now http msg tid s)) = running s"
  "frame (snd (on_exception e now http msg tid s)) = frame s"
  "dequeued (trace (snd (on_exception e now http msg tid s))) = dequeued (trace s)"
  "executed (trace (snd (on_exception e now http msg tid s))) = executed (trace s)"
  by (simp_all add: on_exception_def callback_if_cases get_task_def
        split: py_str.splits option.splits)

lemma on_exception_not_cancelled [simp]:
  "fst (on_exception e now http msg tid s) \<noteq> RaisesCancelledError"
  by (simp add: on_exception_def split: py_str.splits)

lemma execute_finish_fields [simp]:
  "queue (snd (execute_finish e completed later http out tid task s)) = queue s"
  "current_task_id (snd (execute_finish e completed later http out tid task s)) = current_task_id s"
  "worker_task (snd (execute_finish e completed later http out tid task s)) = worker_task s"
  "running (snd (execute_finish e completed later http out tid task s)) = running s"
  "frame (snd (execute_finish e completed later http out tid task s)) = frame s"
  "dequeued (trace (snd (execute_finish e completed later http out tid task s))) = dequeued (trace s)"
  "executed (trace (snd (execute_finish e completed later http out tid task s))) = executed (trace s)"
  by (simp_all add: execute_finish_def callback_if_cases split: outcome.splits py_str.splits)

lemma execute_finish_not_cancelled [simp]:
  "fst (execute_finish e completed later http out tid task s) \<noteq> RaisesCancelledError"
  by (simp add: execute_finish_def split: outcome.splits py_str.splits)

section \<open>A dequeued id without a row\<close>

text \<open>
  Claim C10. When the store has no row for the id, \<open>execute_task\<close> returns with the state
  exactly as it was: no status written, no executor invoked, no webhook posted. A worker
  pass that takes such an id from the queue changes nothing in the store and adds to the
  events only the dequeue itself.
\<close>

theorem missing_row_returns_early:
  assumes missing: "db s tid = None"
  shows "execute_task e started r tid s = (Returns, s)
    \<and> (running s \<and> worker_task s = Some Pending \<and> frame s = None \<and> queue s = tid # rest \<longrightarrow>
         db (worker_iteration e started r s) = db s
         \<and> trace (worker_iteration e started r s) = trace s @ [QueueGet tid]
         \<and> queue (worker_iteration e started r s) = rest
         \<and> current_task_id (worker_iteration e started r s) = None
         \<and> frame (worker_iteration e started r s) = None
         \<and> worker_task (worker_iteration e started r s) = Some Pending)"
proof -
  have 1: "execute_task e started r tid s = (Returns, s)"
    by (simp add: execute_task_def execute_start_None [OF missing])
  have "db (emit (QueueGet tid) (s\<lparr>queue := rest, current_task_id := Some tid\<rparr>)) tid = None"
    using missing by simp
  then have st: "execute_start e started tid (emit (QueueGet tid) (s\<lparr>queue := rest, current_task_id := Some tid\<rparr>))
      = (None, emit (QueueGet tid) (s\<lparr>queue := rest, current_task_id := Some tid\<rparr>))"
    by (rule execute_start_None)
  have 2: "running s \<and> worker_task s = Some Pending \<and> frame s = None \<and> queue s = tid # rest \<longrightarrow>
         db (worker_iteration e started r s) = db s
         \<and> trace (worker_iteration e started r s) = trace s @ [QueueGet tid]
         \<and> queue (worker_iteration e started r s) = rest
         \<and> current_task_id (worker_iteration e started r s) = None
         \<and> frame (worker_iteration e started r s) = None
         \<and> worker_task (worker_iteration e started r s) = Some Pending"
    by (simp add: worker_iteration_def worker_begin_def worker_resume_def st)
  from 1 2 show ?thesis by (rule conjI)
qed

theorem missing_row_returns_early_witness:
  "execute_task example_env 3 (Result 4 5 example_http (Returned (Str ''done''))) ''ghost'' example_system
     = (Returns, example_system)
   \<and> trace (worker_iteration example_env 3 (Result 4 5 example_http (Returned (Str ''done'')))
        (add_task ''ghost'' (start example_system))) = [QueueGet ''ghost'']
   \<and> db (worker_iteration example_env 3 (Result 4 5 example_http (Returned (Str ''done'')))
        (add_task ''ghost'' (start example_system))) = db example_system"
proof -
  let ?s = "add_task ''ghost'' (start example_system)"
  have a: "db example_system ''ghost'' = None"
    by (simp add: example_system_def new_system_def)
  have b: "db ?s ''ghost'' = None"
    by (simp add: example_system_def new_system_def add_task_def start_def)
  have pre: "running ?s \<and> worker_task ?s = Some Pending \<and> frame ?s = None \<and> queue ?s = ''ghost'' # []"
    by (simp add: example_system_def new_system_def add_task_def start_def)
  have 1: "execute_task example_env 3 (Result 4 5 example_http (Returned (Str ''done''))) ''ghost'' example_system
     = (Returns, example_system)"
    using missing_row_returns_early [OF a] by (rule conjunct1)
  have "db (worker_iteration example_env 3 (Result 4 5 example_http (Returned (Str ''done''))) ?s) = db ?s
     \<and> trace (worker_iteration example_env 3 (Result 4 5 example_http (Returned (Str ''done''))) ?s)
         = trace ?s @ [QueueGet ''ghost'']"
    using missing_row_returns_early [OF b, of example_env 3 "Result 4 5 example_http (Returned (Str ''done''))" "[]"] pre
    by blast
  then have 2: "trace (worker_iteration example_env 3 (Result 4 5 example_http (Returned (Str ''done''))) ?s)
         = [QueueGet ''ghost'']"
    and 3: "db (worker_iteration example_env 3 (Result 4 5 example_http (Returned (Str ''done''))) ?s)
         = db example_system"
    by (simp_all add: example_system_def new_system_def add_task_def start_def)
  from 1 2 3 show ?thesis by (intro conjI)
qed

section \<open>Webhook delivery\<close>





section \<open>Timeout of the executor\<close>




section \<open>One running task\<close>

text \<open>
  Claim C9 fails on the code. Tasks \<^verbatim>\<open>A\<close> and \<^verbatim>\<open>B\<close> are submitted and queued. The
  executor of \<^verbatim>\<open>A\<close> raises an exception whose text cannot be encoded, so the
  \<^verbatim>\<open>update_status\<close> of the \<^verbatim>\<open>except Exception\<close> handler raises in its turn and row
  \<^verbatim>\<open>A\<close> stays \<^verbatim>\<open>running\<close>; the worker's own \<^verbatim>\<open>except Exception\<close> lets the loop go on,
  and the next pass marks \<^verbatim>\<open>B\<close> running: two rows are running at once.
\<close>

theorem two_running_tasks:
  "''A'' \<in> running_ids (db example_two_running)
   \<and> ''B'' \<in> running_ids (db example_two_running)
   \<and> ''A'' \<noteq> ''B''
   \<and> worker_task example_two_running = Some Pending
   \<and> current_task_id example_two_running = Some ''B''"
proof -
  have a: "status_of (db example_two_running) ''A'' = Some ''running''" by code_simp
  have b: "status_of (db example_two_running) ''B'' = Some ''running''" by code_simp
  have w: "worker_task example_two_running = Some Pending" by code_simp
  have c: "current_task_id example_two_running = Some ''B''" by code_simp
  from a b w c show ?thesis by (simp add: running_ids_def)
qed

section \<open>Stopping the worker\<close>

lemma worker_iteration_stopped:
  "\<not> running s \<Longrightarrow> frame s = None \<Longrightarrow> worker_iteration e started r s = s"
  by (simp add: worker_iteration_def worker_begin_def worker_resume_def)

lemma worker_run_stopped:
  "\<not> running s \<Longrightarrow> frame s = None \<Longrightarrow> worker_run e inputs s = s"
  by (induction inputs) (auto simp: worker_iteration_stopped)

lemma stop_executing:
  "worker_task s = Some Pending \<Longrightarrow> frame s = Some (tid, task) \<Longrightarrow>
     stop e s = s\<lparr>running := False, frame := None, worker_task := Some Done\<rparr>"
  by (simp add: stop_def worker_resume_def execute_resume_def)

text \<open>
  Claim C6, as the code has it. When \<open>stop\<close> is called while the worker is suspended in
  the executor, the suspended \<^verbatim>\<open>_execute_task\<close> is resumed with the cancellation, which
  leaves it as \<^verbatim>\<open>CancelledError\<close>; no event is added and the queue is untouched; in the
  state in which \<open>stop\<close> returns the flag is cleared, the worker's task has ended and
  nothing is suspended any more, and further passes of the loop do nothing.
\<close>

theorem stop_during_execution:
  assumes "worker_task s = Some Pending" and "frame s = Some (tid, task)"
  shows "stop e s = worker_resume e Cancel (s\<lparr>running := False\<rparr>)
    \<and> execute_resume e Cancel tid task (s\<lparr>running := False\<rparr>)
        = (RaisesCancelledError, s\<lparr>running := False\<rparr>)
    \<and> trace (stop e s) = trace s
    \<and> queue (stop e s) = queue s
    \<and> running (stop e s) = False
    \<and> worker_task (stop e s) = Some Done
    \<and> frame (stop e s) = None
    \<and> worker_run e inputs (stop e s) = stop e s"
proof -
  note st = stop_executing [OF assms, of e]
  have 1: "stop e s = worker_resume e Cancel (s\<lparr>running := False\<rparr>)"
    using assms by (simp add: stop_def)
  have 2: "execute_resume e Cancel tid task (s\<lparr>running := False\<rparr>)
        = (RaisesCancelledError, s\<lparr>running := False\<rparr>)"
    by (simp add: execute_resume_def)
  have run: "worker_run e inputs (stop e s) = stop e s"
    by (rule worker_run_stopped) (simp_all add: st)
  have 3: "trace (stop e s) = trace s" "queue (stop e s) = queue s"
    "running (stop e s) = False" "worker_task (stop e s) = Some Done" "frame (stop e s) = None"
    by (simp_all add: st)
  show ?thesis
    by (intro conjI) (fact 1 2 3 run)+
qed

theorem stop_during_execution_witness:
  "worker_task (stop example_env example_executing) = Some Done
   \<and> running (stop example_env example_executing) = False
   \<and> trace (stop example_env example_executing) = trace example_executing
   \<and> worker_run example_env [(6, Result 7 8 example_http (Returned (Str ''done'')))]
        (stop example_env example_executing) = stop example_env example_executing"
proof -
  have wt: "worker_task example_executing = Some Pending"
    by code_simp
  have fr: "frame example_executing = Some (''B'', example_row ''queued'' (Some ''http://example/cb''))"
    by code_simp
  note all = stop_during_execution [OF wt fr, of example_env
      "[(6, Result 7 8 example_http (Returned (Str ''done'')))]"]
  from all have 1: "worker_task (stop example_env example_executing) = Some Done"
    by (elim conjE)
  from all have 2: "running (stop example_env example_executing) = False"
    by (elim conjE)
  from all have 3: "trace (stop example_env example_executing) = trace example_executing"
    by (elim conjE)
  from all have 4: "worker_run example_env [(6, Result 7 8 example_http (Returned (Str ''done'')))]
        (stop example_env example_executing) = stop example_env example_executing"
    by (elim conjE)
  from 1 2 3 4 show ?thesis by (intro conjI)
qed

text \<open>
  Task \<^verbatim>\<open>B\<close> is executing (its executor has been invoked, its row is \<^verbatim>\<open>running\<close>) when
  \<open>stop\<close> is called: the worker has ended, no callback was posted, and the row is still
  \<^verbatim>\<open>running\<close>, also after any further pass, against claim C6.
\<close>

theorem stop_during_execution_counterexample:
  "executed (trace example_executing) = [''B'']
   \<and> status_of (db example_executing) ''B'' = Some ''running''
   \<and> status_of (db (stop example_env example_executing)) ''B'' = Some ''running''
   \<and> worker_task (stop example_env example_executing) = Some Done
   \<and> running (stop example_env example_executing) = False
   \<and> posts (trace (stop example_env example_executing)) = []
   \<and> status_of (db (worker_run example_env
           [(6, Result 7 8 example_http (Returned (Str ''done'')))]
           (stop example_env example_executing))) ''B'' = Some ''running''"
  by code_simp

section \<open>Callback delivery and the next task\<close>

lemma send_callback_delivery:
  "trace (send_callback e http tid cb st res err completed s) =
     trace s @ delivery_events e http cb (CallbackPayload tid st res err completed)"
  unfolding delivery_events_def send_callback_def attempts_made_def
  by (rule callback_loop_trace)

lemma delivery_events_sleeps:
  "sleeps (delivery_events e http cb p) =
     map (\<lambda>k. WEBHOOK_RETRY_DELAY e * 2 ^ k) [0..<attempts_made e (post_outcome http p) - 1]"
proof -
  obtain tid st res err completed where p: "p = CallbackPayload tid st res err completed"
    by (cases p)
  have "sleeps (trace (send_callback e http tid cb st res err completed (new_system Map.empty))) =
     map (\<lambda>k. WEBHOOK_RETRY_DELAY e * 2 ^ k) [0..<attempts_made e (post_outcome http p) - 1]"
    using callback_loop_facts(6) [of e "post_outcome http p" tid cb p "new_system Map.empty"]
    by (simp add: send_callback_def attempts_made_def p new_system_def)
  then show ?thesis
    by (simp add: send_callback_delivery p new_system_def)
qed

lemma delivery_events_posts:
  "length (posts (delivery_events e http cb p)) = attempts_made e (post_outcome http p)"
proof -
  obtain tid st res err completed where p: "p = CallbackPayload tid st res err completed"
    by (cases p)
  have "posts (trace (send_callback e http tid cb st res err completed (new_system Map.empty))) =
     replicate (attempts_made e (post_outcome http p)) (HttpPost cb p (WEBHOOK_TIMEOUT e))"
    using callback_loop_facts(3) [of e "post_outcome http p" tid cb p "new_system Map.empty"]
    by (simp add: send_callback_def attempts_made_def p new_system_def)
  then show ?thesis
    by (simp add: send_callback_delivery p new_system_def)
qed

lemma on_exception_delivery:
  assumes "db s tid = Some row" and "callback_url row = Some cb" and "cb \<noteq> []"
  shows "\<exists>p. trace (snd (on_exception e now http (Str m) tid s)) =
           trace s @ delivery_events e http cb p"
proof -
  let ?db = "update_status tid ''failed'' None (Some now) None
               (Some (''Task execution error: '' @ m)) (db s)"
  obtain row' where r: "?db tid = Some row'" and cb': "callback_url row' = Some cb"
    using assms by (simp add: update_status_Some [of "db s" tid row])
  then show ?thesis
    using assms(3)
    by (auto simp: on_exception_def get_task_def callback_if_def send_callback_delivery)
qed

lemma execute_finish_delivery:
  assumes "db s tid = Some row" and "callback_url row = Some cb" and "callback_url task = Some cb"
    and "cb \<noteq> []" and "\<forall>t. out \<noteq> Raised (Unencodable t)"
  shows "\<exists>p. trace (snd (execute_finish e completed later http out tid task s)) =
           trace s @ delivery_events e http cb p"
proof (cases out)
  case (Returned res)
  show ?thesis
  proof (cases res)
    case (Str r)
    with Returned assms show ?thesis
      by (auto simp: execute_finish_def callback_if_def send_callback_delivery)
  next
    case (Unencodable t)
    with Returned on_exception_delivery [OF assms(1,2,4), of e later http t] show ?thesis
      by (simp add: execute_finish_def)
  qed
next
  case TimedOut
  with assms show ?thesis
    by (auto simp: execute_finish_def callback_if_def send_callback_delivery)
next
  case (Raised msg)
  with assms(5) obtain m where "msg = Str m" by (cases msg) auto
  with Raised on_exception_delivery [OF assms(1,2,4), of e completed http m] show ?thesis
    by (simp add: execute_finish_def)
qed

lemma send_callback_grows:
  "\<exists>evs. trace (send_callback e http tid cb st res err completed s) = trace s @ evs"
  by (simp add: send_callback_delivery)

lemma execute_finish_grows:
  "\<exists>evs. trace (snd (execute_finish e completed later http out tid task s)) = trace s @ evs"
  by (auto simp: execute_finish_def on_exception_def callback_if_def get_task_def
        send_callback_delivery split: outcome.splits py_str.splits option.splits)

lemma worker_resume_grows: "\<exists>evs. trace (worker_resume e r s) = trace s @ evs"
proof (cases "frame s")
  case None
  then show ?thesis by (simp add: worker_resume_def)
next
  case (Some fr)
  obtain tid task where fr: "fr = (tid, task)" by (cases fr)
  show ?thesis
  proof (cases r)
    case Cancel
    with Some fr show ?thesis by (simp add: worker_resume_def execute_resume_def)
  next
    case (Result completed later http out)
    obtain c s1 where x: "execute_finish e completed later http out tid task s = (c, s1)"
      by (cases "execute_finish e completed later http out tid task s")
    with execute_finish_grows [of e completed later http out tid task s]
    obtain evs where "trace s1 = trace s @ evs" by auto
    with Some fr Result x show ?thesis
      by (cases c) (simp_all add: worker_resume_def execute_resume_def)
  qed
qed

lemma worker_begin_dequeues:
  "running s \<Longrightarrow> worker_task s = Some Pending \<Longrightarrow> frame s = None \<Longrightarrow> queue s = b # rest \<Longrightarrow>
     \<exists>evs. trace (worker_begin e started s) = trace s @ QueueGet b # evs"
  by (cases "db s b")
     (simp_all add: worker_begin_def execute_start_None execute_start_Some)


lemma worker_pass_state:
  assumes "running s" and "worker_task s = Some Pending" and "frame s = None"
    and "queue s = a # rest" and "db s a = Some task"
  shows "worker_begin e started s =
     (emit (ExecutorRun a (url task) (build_description e task) (timeout task))
        (s\<lparr>queue := rest, current_task_id := Some a,
            trace := trace s @ [QueueGet a],
            db := update_status a ''running'' (Some started) None None None (db s)\<rparr>))
       \<lparr>frame := Some (a, task)\<rparr>"
  using assms by (simp add: worker_begin_def execute_start_Some emit_def)

lemma worker_resume_result:
  assumes "frame s = Some (tid, task)"
  shows "worker_resume e (Result completed later http out) s =
     (snd (execute_finish e completed later http out tid task s))
       \<lparr>current_task_id := None, frame := None\<rparr>"
proof -
  obtain c s1 where x: "execute_finish e completed later http out tid task s = (c, s1)"
    by (cases "execute_finish e completed later http out tid task s")
  with execute_finish_not_cancelled [of e completed later http out tid task s]
  have "c \<noteq> RaisesCancelledError" by simp
  with x assms show ?thesis
    by (cases c) (simp_all add: worker_resume_def execute_resume_def)
qed

text \<open>
  Claim C5, as the code has it. The worker takes \<open>a\<close>, the head of the queue, whose row
  has a callback URL, and the executor ends in any way that lets the terminal update be
  written. When the pass is over the trace of the pass is the dequeue of \<open>a\<close>, the call
  of the executor and then the whole delivery, one POST per attempt with the backoff
  sleeps between them; the next id \<open>b\<close> is still in the queue; and the next pass starts
  by dequeuing \<open>b\<close>, after all of that.
\<close>

theorem callback_before_next_task:
  fixes e started completed later http out s started' r'
  defines "s1 \<equiv> worker_iteration e started (Result completed later http out) s"
  assumes "running s" and "worker_task s = Some Pending" and "frame s = None"
    and "queue s = a # b # rest" and "db s a = Some task"
    and "callback_url task = Some cb" and "cb \<noteq> []"
    and "\<forall>t. out \<noteq> Raised (Unencodable t)"
  shows "(\<exists>p. trace s1 = trace s
              @ [QueueGet a, ExecutorRun a (url task) (build_description e task) (timeout task)]
              @ delivery_events e http cb p
            \<and> length (posts (delivery_events e http cb p)) = attempts_made e (post_outcome http p)
            \<and> sleeps (delivery_events e http cb p) =
                map (\<lambda>k. WEBHOOK_RETRY_DELAY e * 2 ^ k)
                  [0..<attempts_made e (post_outcome http p) - 1])
    \<and> queue s1 = b # rest
    \<and> dequeued (trace s1) = dequeued (trace s) @ [a]
    \<and> (\<exists>evs. trace (worker_iteration e started' r' s1) = trace s1 @ QueueGet b # evs)"
proof -
  let ?s0 = "worker_begin e started s"
  note s0 = worker_pass_state [OF assms(2-4) _ assms(6), of "b # rest" e started, OF assms(5)]
  have fr: "frame ?s0 = Some (a, task)" by (simp add: s0)
  have row: "db ?s0 a = Some (task\<lparr>status := ''running'', started_at := Some started\<rparr>)"
    using assms(6) by (simp add: s0 emit_def update_status_def)
  have s1: "s1 = (snd (execute_finish e completed later http out a task ?s0))
       \<lparr>current_task_id := None, frame := None\<rparr>"
    unfolding s1_def worker_iteration_def by (rule worker_resume_result [OF fr])
  from execute_finish_delivery [OF row _ assms(7,8,9), of e completed later http] assms(7)
  obtain p where p: "trace (snd (execute_finish e completed later http out a task ?s0)) =
           trace ?s0 @ delivery_events e http cb p"
    by auto
  have t0: "trace ?s0 = trace s
      @ [QueueGet a, ExecutorRun a (url task) (build_description e task) (timeout task)]"
    by (simp add: s0 emit_def)
  have 1: "\<exists>p. trace s1 = trace s
              @ [QueueGet a, ExecutorRun a (url task) (build_description e task) (timeout task)]
              @ delivery_events e http cb p
            \<and> length (posts (delivery_events e http cb p)) = attempts_made e (post_outcome http p)
            \<and> sleeps (delivery_events e http cb p) =
                map (\<lambda>k. WEBHOOK_RETRY_DELAY e * 2 ^ k)
                  [0..<attempts_made e (post_outcome http p) - 1]"
    by (rule exI [of _ p]) (simp add: s1 p t0 delivery_events_posts delivery_events_sleeps)
  have q: "queue s1 = b # rest"
    by (simp add: s1) (simp add: s0 emit_def)
  have d: "dequeued (trace s1) = dequeued (trace s) @ [a]"
    by (simp add: s1) (simp add: s0 emit_def)
  have st: "running s1" "worker_task s1 = Some Pending" "frame s1 = None"
    using assms(2,3) by (simp_all add: s1) (simp_all add: s0 emit_def)
  from worker_begin_dequeues [OF st q, of e started']
  obtain evs where b: "trace (worker_begin e started' s1) = trace s1 @ QueueGet b # evs" ..
  from worker_resume_grows [of e r' "worker_begin e started' s1"]
  obtain evs' where "trace (worker_resume e r' (worker_begin e started' s1)) =
      trace (worker_begin e started' s1) @ evs'" ..
  with b have n: "\<exists>evs. trace (worker_iteration e started' r' s1) = trace s1 @ QueueGet b # evs"
    by (simp add: worker_iteration_def)
  show ?thesis
    by (intro conjI) (fact 1 q d n)+
qed


theorem callback_before_next_task_witness:
  "queue (worker_iteration example_env 2 (Result 3 4 example_http (Returned (Str ''done'')))
            example_two_queued) = [''B'']
   \<and> dequeued (trace (worker_iteration example_env 2
          (Result 3 4 example_http (Returned (Str ''done''))) example_two_queued)) = [''A'']
   \<and> (\<exists>evs. trace (worker_iteration example_env 5 Cancel
                   (worker_iteration example_env 2
                      (Result 3 4 example_http (Returned (Str ''done''))) example_two_queued)) =
              trace (worker_iteration example_env 2
                      (Result 3 4 example_http (Returned (Str ''done''))) example_two_queued)
                @ QueueGet ''B'' # evs)"
proof -
  have h1: "running example_two_queued" by code_simp
  have h2: "worker_task example_two_queued = Some Pending" by code_simp
  have h3: "frame example_two_queued = None" by code_simp
  have h4: "queue example_two_queued = ''A'' # ''B'' # []" by code_simp
  have h5: "db example_two_queued ''A'' = Some (example_row ''queued'' (Some ''http://example/cb''))"
    by code_simp
  have h6: "callback_url (example_row ''queued'' (Some ''http://example/cb'')) =
      Some ''http://example/cb''"
    by code_simp
  have h7: "''http://example/cb'' \<noteq> []" by simp
  have h8: "\<forall>t. Returned (Str ''done'') \<noteq> Raised (Unencodable t)" by simp
  have h0: "dequeued (trace example_two_queued) = []" by code_simp
  note all = callback_before_next_task [where e = example_env and started = 2
      and completed = 3 and later = 4 and http = example_http and started' = 5 and r' = Cancel,
      OF h1 h2 h3 h4 h5 h6 h7 h8]
  from all have 1: "queue (worker_iteration example_env 2
      (Result 3 4 example_http (Returned (Str ''done''))) example_two_queued) = [''B'']"
    by (elim conjE)
  from all have "dequeued (trace (worker_iteration example_env 2
          (Result 3 4 example_http (Returned (Str ''done''))) example_two_queued)) =
       dequeued (trace example_two_queued) @ [''A'']"
    by (elim conjE)
  then have 2: "dequeued (trace (worker_iteration example_env 2
          (Result 3 4 example_http (Returned (Str ''done''))) example_two_queued)) = [''A'']"
    by (simp only: h0 append_Nil)
  from all have 3: "\<exists>evs. trace (worker_iteration example_env 5 Cancel
                   (worker_iteration example_env 2
                      (Result 3 4 example_http (Returned (Str ''done''))) example_two_queued)) =
              trace (worker_iteration example_env 2
                      (Result 3 4 example_http (Returned (Str ''done''))) example_two_queued)
                @ QueueGet ''B'' # evs"
    by (elim conjE)
  from 1 2 3 show ?thesis by (intro conjI)
qed

text \<open>
  Tasks \<^verbatim>\<open>A\<close> and \<^verbatim>\<open>B\<close> are queued, \<^verbatim>\<open>A\<close> with a callback URL. After the pass that
  completes \<^verbatim>\<open>A\<close>, three attempts were posted and the worker slept 2 and 4 seconds
  between them, and \<^verbatim>\<open>B\<close> is still in the queue: both sleeps come before the dequeue of
  \<^verbatim>\<open>B\<close> in the trace of the next pass, against claim C5.
\<close>

theorem callback_before_next_task_counterexample:
  "status_of (db (worker_iteration example_env 2
       (Result 3 4 example_http (Returned (Str ''done''))) example_two_queued)) ''A'' =
     Some ''completed''
   \<and> queue (worker_iteration example_env 2
       (Result 3 4 example_http (Returned (Str ''done''))) example_two_queued) = [''B'']
   \<and> dequeued (trace (worker_iteration example_env 2
       (Result 3 4 example_http (Returned (Str ''done''))) example_two_queued)) = [''A'']
   \<and> length (posts (trace (worker_iteration example_env 2
       (Result 3 4 example_http (Returned (Str ''done''))) example_two_queued))) = 3
   \<and> sleeps (trace (worker_iteration example_env 2
       (Result 3 4 example_http (Returned (Str ''done''))) example_two_queued)) = [2, 4]
   \<and> sleeps (takeWhile (\<lambda>ev. ev \<noteq> QueueGet ''B'')
        (trace (worker_iteration example_env 5
           (Result 6 7 example_http (Returned (Str ''ok'')))
           (worker_iteration example_env 2
              (Result 3 4 example_http (Returned (Str ''done''))) example_two_queued)))) = [2, 4]
   \<and> dequeued (trace (worker_iteration example_env 5
           (Result 6 7 example_http (Returned (Str ''ok'')))
           (worker_iteration example_env 2
              (Result 3 4 example_http (Returned (Str ''done''))) example_two_queued))) =
       [''A'', ''B'']"
  by code_simp

section \<open>Submission lemmas\<close>








section \<open>Validation of the timeout\<close>





section \<open>Submission and the queue\<close>

text \<open>
  Claim C1 fails on the code. The process has booted and the worker is running. A
  submission is accepted: the response says \<^verbatim>\<open>queued\<close> and the row is written with
  status \<^verbatim>\<open>queued\<close>. The queue is still empty: the endpoint never calls \<^verbatim>\<open>add_task\<close>.
  Two passes of the worker later nothing was dequeued, the executor was not called, and
  the row is still \<^verbatim>\<open>queued\<close>.
\<close>

theorem submission_not_enqueued:
  "(case submit example_env (CdpResponse 200) ''A'' 1 example_body (boot 0 Map.empty) of
      Inl err \<Rightarrow> False
    | Inr (resp, s1) \<Rightarrow>
        resp = TaskResponse ''A'' ''queued'' None 1
        \<and> status_of (db s1) ''A'' = Some ''queued''
        \<and> running s1 \<and> worker_task s1 = Some Pending
        \<and> queue s1 = []
        \<and> dequeued (trace (worker_run example_env
              [(2, Result 3 4 example_http (Returned (Str ''done''))),
               (5, Result 6 7 example_http (Returned (Str ''done'')))] s1)) = []
        \<and> executed (trace (worker_run example_env
              [(2, Result 3 4 example_http (Returned (Str ''done''))),
               (5, Result 6 7 example_http (Returned (Str ''done'')))] s1)) = []
        \<and> status_of (db (worker_run example_env
              [(2, Result 3 4 example_http (Returned (Str ''done''))),
               (5, Result 6 7 example_http (Returned (Str ''done'')))] s1)) ''A'' = Some ''queued'')"
  by code_simp

end
